theory Spec2Isabelle
  imports Complex_Main
begin

section \<open>JavaScript values used by the User model\<close>

text \<open>
  Timestamps are the millisecond counts behind JavaScript \<open>Date\<close> objects
  (\<open>Date.now()\<close>, \<open>date.getTime()\<close>), modelled as unbounded integers; comparing two
  dates with \<open><\<close> compares these counts. An absent field (\<open>undefined\<close>) is \<open>None\<close>.
\<close>

type_synonym timestamp = int

text \<open>
  \<open>Number.prototype.toString\<close> on an integer: the decimal digits, most significant
  first, with a minus sign for a negative number. (JavaScript switches to exponent
  notation from \<open>10\<^sup>2\<^sup>1\<close> on; the numbers rendered here are six-digit codes and
  minutes between two dates, far below.)
\<close>

definition digit_char :: "nat \<Rightarrow> char" where
  "digit_char d = ''0123456789'' ! d"

fun digits_of :: "nat \<Rightarrow> string" where
  "digits_of n =
     (if n < 10 then [digit_char n]
      else digits_of (n div 10) @ [digit_char (n mod 10)])"

declare digits_of.simps [simp del]

definition toString :: "int \<Rightarrow> string" where
  "toString n =
     (if n < 0 then CHR ''-'' # digits_of (nat (- n)) else digits_of (nat n))"

text \<open>The number a string of decimal digits denotes (used to state ranges of codes).\<close>

definition digit_value :: "char \<Rightarrow> nat" where
  "digit_value c = of_char c - 48"

definition decimal_value :: "string \<Rightarrow> nat" where
  "decimal_value s = foldl (\<lambda>acc c. 10 * acc + digit_value c) 0 s"

definition is_digit :: "char \<Rightarrow> bool" where
  "is_digit c = (c \<in> set ''0123456789'')"

text \<open>
  Truthiness of a field of schema type String: \<open>undefined\<close> and the empty string are
  falsy, every other string is truthy. A \<open>Date\<close> object is always truthy, so a Date
  field is falsy exactly when it is absent.
\<close>

fun truthy_string :: "string option \<Rightarrow> bool" where
  "truthy_string None = False"
| "truthy_string (Some s) = (s \<noteq> [])"

datatype js_error = TypeError

section \<open>The User document\<close>

text \<open>The fields of \<open>userSchema\<close>, with the schema defaults applied by \<open>new_User\<close>.\<close>

record user =
  phoneNumber :: string
  password :: "string option"
  isPhoneVerified :: bool
  verificationCode :: "string option"
  verificationCodeExpiry :: "timestamp option"
  verificationAttempts :: int
  lastVerificationAttempt :: "timestamp option"
  isActive :: bool
  createdAt :: timestamp
  lastLoginAt :: "timestamp option"

text \<open>
  \<open>new User({phoneNumber, isPhoneVerified: false, isActive: true})\<close>, optionally with a
  password, as \<open>registerUser\<close> and \<open>requestPhoneVerification\<close> create it. The counter
  defaults to 0, \<open>createdAt\<close> to the creation time, the other fields are absent.
\<close>

definition new_User :: "string \<Rightarrow> string option \<Rightarrow> timestamp \<Rightarrow> user" where
  "new_User phone pw created =
     \<lparr> phoneNumber = phone, password = pw, isPhoneVerified = False,
       verificationCode = None, verificationCodeExpiry = None,
       verificationAttempts = 0, lastVerificationAttempt = None,
       isActive = True, createdAt = created, lastLoginAt = None \<rparr>"

section \<open>Instance methods of the schema\<close>

subsection \<open>generateVerificationCode\<close>

text \<open>
  The method reads \<open>Math.random()\<close> once (\<open>rnd\<close>, a number with \<open>0 \<le> rnd < 1\<close>,
  taken as a real number: the rounding of floating-point arithmetic is not modelled),
  the configured lifetime \<open>parseInt(process.env.VERIFICATION_CODE_EXPIRY)\<close> (\<open>ttl\<close>,
  an integer number of milliseconds) and the clock twice: \<open>Date.now()\<close> for the
  expiry (\<open>now\<close>) and \<open>new Date()\<close> for the stamp of the attempt (\<open>stamp\<close>). It
  returns the code and the mutated document.
\<close>

definition generateVerificationCode ::
  "real \<Rightarrow> int \<Rightarrow> timestamp \<Rightarrow> timestamp \<Rightarrow> user \<Rightarrow> string \<times> user" where
  "generateVerificationCode rnd ttl now stamp u =
     (let code = toString \<lfloor>100000 + rnd * 900000\<rfloor>
      in (code,
          u\<lparr> verificationCode := Some code,
             verificationCodeExpiry := Some (now + ttl),
             verificationAttempts := verificationAttempts u + 1,
             lastVerificationAttempt := Some stamp \<rparr>))"

subsection \<open>verifyCode\<close>

text \<open>
  The candidate is a string and \<open>now\<close> the reading of \<open>new Date()\<close>. The first test,
  \<open>!this.verificationCode || !this.verificationCodeExpiry\<close>, looks at the code and
  then at the expiry; \<open>!==\<close> on two strings compares them character by character.
\<close>

record verify_result =
  success :: bool
  message :: string

definition verifyCode :: "user \<Rightarrow> string \<Rightarrow> timestamp \<Rightarrow> verify_result \<times> user" where
  "verifyCode u code now =
     (if \<not> truthy_string (verificationCode u) then
        (\<lparr> success = False, message = ''No verification code found'' \<rparr>, u)
      else
        (case verificationCodeExpiry u of
           None \<Rightarrow>
             (\<lparr> success = False, message = ''No verification code found'' \<rparr>, u)
         | Some expiry \<Rightarrow>
             if expiry < now then
               (\<lparr> success = False, message = ''Verification code has expired'' \<rparr>, u)
             else if verificationCode u \<noteq> Some code then
               (\<lparr> success = False, message = ''Invalid verification code'' \<rparr>, u)
             else
               (\<lparr> success = True, message = ''Phone number verified successfully'' \<rparr>,
                u\<lparr> isPhoneVerified := True,
                   verificationCode := None,
                   verificationCodeExpiry := None,
                   verificationAttempts := 0 \<rparr>)))"

text \<open>
  The specification names the three failures \<open>NO_CODE_ISSUED\<close>, \<open>CODE_EXPIRED\<close> and
  \<open>CODE_MISMATCH\<close>; the method reports them through these messages.
\<close>

definition NO_CODE_ISSUED :: verify_result where
  "NO_CODE_ISSUED = \<lparr> success = False, message = ''No verification code found'' \<rparr>"

definition CODE_EXPIRED :: verify_result where
  "CODE_EXPIRED = \<lparr> success = False, message = ''Verification code has expired'' \<rparr>"

definition CODE_MISMATCH :: verify_result where
  "CODE_MISMATCH = \<lparr> success = False, message = ''Invalid verification code'' \<rparr>"

definition VERIFIED :: verify_result where
  "VERIFIED = \<lparr> success = True, message = ''Phone number verified successfully'' \<rparr>"

subsection \<open>canRequestVerificationCode\<close>

record request_result =
  canRequest :: bool
  wait_message :: "string option"

definition maxAttempts :: int where
  "maxAttempts = 5"

definition cooldownPeriod :: int where
  "cooldownPeriod = 15 * 60 * 1000"

text \<open>\<open>Math.ceil((cooldownPeriod - timeSinceLastAttempt) / 60000)\<close>\<close>

definition remainingTime :: "int \<Rightarrow> int" where
  "remainingTime timeSinceLastAttempt =
     \<lceil>real_of_int (cooldownPeriod - timeSinceLastAttempt) / 60000\<rceil>"

definition too_many_attempts :: "int \<Rightarrow> string" where
  "too_many_attempts minutes =
     ''Too many attempts. Please wait '' @ toString minutes
       @ '' minutes before requesting a new code.''"

text \<open>
  Reading \<open>this.lastVerificationAttempt.getTime()\<close> on an absent field throws a
  \<open>TypeError\<close> before anything is assigned.
\<close>

definition canRequestVerificationCode ::
  "user \<Rightarrow> timestamp \<Rightarrow> js_error + (request_result \<times> user)" where
  "canRequestVerificationCode u now =
     (if verificationAttempts u \<ge> maxAttempts then
        (case lastVerificationAttempt u of
           None \<Rightarrow> Inl TypeError
         | Some lastAttempt \<Rightarrow>
             (let timeSinceLastAttempt = now - lastAttempt in
              if timeSinceLastAttempt < cooldownPeriod then
                Inr (\<lparr> canRequest = False,
                       wait_message =
                         Some (too_many_attempts (remainingTime timeSinceLastAttempt)) \<rparr>,
                     u)
              else
                Inr (\<lparr> canRequest = True, wait_message = None \<rparr>,
                     u\<lparr> verificationAttempts := 0 \<rparr>)))
      else Inr (\<lparr> canRequest = True, wait_message = None \<rparr>, u))"

section \<open>Static method cleanupExpiredCodes\<close>

text \<open>
  \<open>updateMany({verificationCodeExpiry: {$lt: now}}, {$unset: {verificationCode,
  verificationCodeExpiry}})\<close>: every document whose expiry is present and before
  \<open>now\<close> loses both fields; the others are untouched.
\<close>

definition cleanup_account :: "timestamp \<Rightarrow> user \<Rightarrow> user" where
  "cleanup_account now u =
     (case verificationCodeExpiry u of
        None \<Rightarrow> u
      | Some expiry \<Rightarrow>
          if expiry < now
          then u\<lparr> verificationCode := None, verificationCodeExpiry := None \<rparr>
          else u)"

definition cleanupExpiredCodes :: "timestamp \<Rightarrow> user list \<Rightarrow> user list" where
  "cleanupExpiredCodes now users = map (cleanup_account now) users"

section \<open>The state machine of one account\<close>

text \<open>
  The operations on one account with their inputs: the three instance methods (which
  the specification calls generateCode, verifyCode and canRequestCode) and the cleanup
  sweep as far as it concerns this account.
\<close>

datatype operation =
    GenerateCode real int timestamp timestamp
  | VerifyCode string timestamp
  | CanRequestCode timestamp
  | Cleanup timestamp

text \<open>
  The document after an operation. A \<open>canRequestVerificationCode\<close> that throws has
  assigned nothing, so it leaves the document as it was.
\<close>

fun run_op :: "operation \<Rightarrow> user \<Rightarrow> user" where
  "run_op (GenerateCode rnd ttl now stamp) u =
     snd (generateVerificationCode rnd ttl now stamp u)"
| "run_op (VerifyCode code now) u = snd (verifyCode u code now)"
| "run_op (CanRequestCode now) u =
     (case canRequestVerificationCode u now of
        Inl _ \<Rightarrow> u
      | Inr (_, u') \<Rightarrow> u')"
| "run_op (Cleanup now) u = cleanup_account now u"

text \<open>\<open>Math.random()\<close> returns a number in the half-open interval from 0 to 1.\<close>

fun possible_op :: "operation \<Rightarrow> bool" where
  "possible_op (GenerateCode rnd ttl now stamp) = (0 \<le> rnd \<and> rnd < 1)"
| "possible_op _ = True"

definition run_ops :: "operation list \<Rightarrow> user \<Rightarrow> user" where
  "run_ops ops u = foldl (\<lambda>s op. run_op op s) u ops"

text \<open>
  The reachable documents: a newly created one, and every document an operation with a
  possible draw produces from a reachable one, at any clock readings and with any
  configured lifetime.
\<close>

inductive reachable :: "user \<Rightarrow> bool" where
  created: "reachable (new_User phone pw t)"
| operation: "reachable u \<Longrightarrow> possible_op op \<Longrightarrow> reachable (run_op op u)"

section \<open>Example accounts\<close>

text \<open>
  An account that has just been created, and five code requests for it within four
  seconds, each with the lifetime of two minutes and a draw of one half.
\<close>

definition example_user :: user where
  "example_user = new_User ''+15559998888'' None 0"

definition rapid_requests :: "operation list" where
  "rapid_requests =
     [GenerateCode (1/2) 120000 0 0, GenerateCode (1/2) 120000 1000 1000,
      GenerateCode (1/2) 120000 2000 2000, GenerateCode (1/2) 120000 3000 3000,
      GenerateCode (1/2) 120000 4000 4000]"

text \<open>
  The example account after its first code request at time 0, and after confirming that
  code one second later.
\<close>

definition code_sent :: user where
  "code_sent = snd (generateVerificationCode (1/2) 120000 0 0 example_user)"

definition code_confirmed :: user where
  "code_confirmed = snd (verifyCode code_sent ''550000'' 1000)"

text \<open>A code request, its confirmation, and a further code request afterwards.\<close>

definition request_after_verification :: "operation list" where
  "request_after_verification =
     [GenerateCode (1/2) 120000 0 0, VerifyCode ''550000'' 1000,
      GenerateCode (1/2) 120000 2000 2000]"

text \<open>Operations of every kind, applied to the confirmed example account.\<close>

definition mixed_operations :: "operation list" where
  "mixed_operations =
     [CanRequestCode 2000, GenerateCode (1/2) 120000 3000 3000, VerifyCode ''000000'' 4000,
      Cleanup 500000, VerifyCode ''550000'' 500000]"

section \<open>Generation only for unverified accounts\<close>

text \<open>
  Neither \<open>generateVerificationCode\<close> nor its caller \<open>requestPhoneVerification\<close>
  looks at \<open>isPhoneVerified\<close>. The documents reachable when no code is generated
  for an account that is already verified are singled out here.
\<close>

fun generates_for_verified :: "operation \<Rightarrow> user \<Rightarrow> bool" where
  "generates_for_verified (GenerateCode rnd ttl now stamp) u = isPhoneVerified u"
| "generates_for_verified _ u = False"

inductive reachable_unverified_generation :: "user \<Rightarrow> bool" where
  created: "reachable_unverified_generation (new_User phone pw t)"
| operation:
    "reachable_unverified_generation u \<Longrightarrow> possible_op op \<Longrightarrow>
     \<not> generates_for_verified op u \<Longrightarrow> reachable_unverified_generation (run_op op u)"

section \<open>Decimal rendering of numbers\<close>

lemma digits_of_nonempty: "digits_of n \<noteq> []"
  by (subst digits_of.simps) simp

lemma toString_nonempty: "toString n \<noteq> []"
  by (simp add: toString_def digits_of_nonempty)

lemma digit_char_is_digit: "d < 10 \<Longrightarrow> is_digit (digit_char d)"
  unfolding is_digit_def digit_char_def by (rule nth_mem) simp

lemma digits_of_all_digits: "\<forall>c \<in> set (digits_of n). is_digit c"
proof (induction n rule: digits_of.induct)
  case (1 n)
  show ?case
  proof (cases "n < 10")
    case True
    then show ?thesis
      by (subst digits_of.simps) (simp add: digit_char_is_digit)
  next
    case False
    with 1 show ?thesis
      by (subst digits_of.simps) (auto simp: digit_char_is_digit)
  qed
qed

lemma length_digits_of:
  "10 ^ k \<le> n \<Longrightarrow> n < 10 ^ Suc k \<Longrightarrow> length (digits_of n) = Suc k"
proof (induction k arbitrary: n)
  case 0
  then show ?case by (subst digits_of.simps) simp
next
  case (Suc k)
  from Suc.prems have big: "\<not> n < 10"
  proof -
    have "(1::nat) \<le> 10 ^ k" by simp
    then have "(10::nat) \<le> 10 ^ Suc k" by simp
    with Suc.prems show ?thesis by linarith
  qed
  from Suc.prems have "10 ^ k \<le> n div 10" "n div 10 < 10 ^ Suc k"
    by auto
  then have "length (digits_of (n div 10)) = Suc k" by (rule Suc.IH)
  with big show ?case by (subst digits_of.simps) simp
qed

lemma below_ten: "d < 10 \<Longrightarrow> d \<in> {0, 1, 2, 3, 4, 5, 6, 7, 8, 9::nat}"
  by auto

lemma digit_value_digit_char: "d < 10 \<Longrightarrow> digit_value (digit_char d) = d"
  by (drule below_ten) (auto simp: digit_value_def digit_char_def)

lemma digit_char_nonzero: "0 < d \<Longrightarrow> d < 10 \<Longrightarrow> digit_char d \<noteq> CHR ''0''"
  by (drule below_ten) (auto simp: digit_char_def)

lemma hd_digits_of: "0 < n \<Longrightarrow> hd (digits_of n) \<noteq> CHR ''0''"
proof (induction n rule: digits_of.induct)
  case (1 n)
  show ?case
  proof (cases "n < 10")
    case True
    with "1.prems" show ?thesis
      by (subst digits_of.simps) (simp add: digit_char_nonzero)
  next
    case False
    then have "0 < n div 10" by simp
    with False "1.IH" have "hd (digits_of (n div 10)) \<noteq> CHR ''0''" by simp
    with False show ?thesis
      by (subst digits_of.simps) (simp add: digits_of_nonempty)
  qed
qed

lemma decimal_value_snoc:
  "decimal_value (s @ [c]) = 10 * decimal_value s + digit_value c"
  by (simp add: decimal_value_def)

lemma decimal_value_digits_of: "decimal_value (digits_of n) = n"
proof (induction n rule: digits_of.induct)
  case (1 n)
  show ?case
  proof (cases "n < 10")
    case True
    then show ?thesis
      by (subst digits_of.simps) (simp add: decimal_value_def digit_value_digit_char)
  next
    case False
    with "1.IH" have "decimal_value (digits_of (n div 10)) = n div 10" by simp
    with False show ?thesis
      by (subst digits_of.simps) (simp add: decimal_value_snoc digit_value_digit_char)
  qed
qed

lemma code_number_range:
  "0 \<le> rnd \<Longrightarrow> rnd < 1 \<Longrightarrow> 100000 \<le> \<lfloor>100000 + rnd * 900000\<rfloor> \<and> \<lfloor>100000 + rnd * 900000\<rfloor> \<le> (999999::int)"
  by (simp add: le_floor_iff floor_le_iff)

section \<open>Facts about the results and the examples\<close>

lemma verify_results_distinct:
  "NO_CODE_ISSUED \<noteq> CODE_EXPIRED" "NO_CODE_ISSUED \<noteq> CODE_MISMATCH"
  "CODE_EXPIRED \<noteq> CODE_MISMATCH" "CODE_EXPIRED \<noteq> NO_CODE_ISSUED"
  "CODE_MISMATCH \<noteq> NO_CODE_ISSUED" "CODE_MISMATCH \<noteq> CODE_EXPIRED"
  "VERIFIED \<noteq> NO_CODE_ISSUED" "VERIFIED \<noteq> CODE_EXPIRED" "VERIFIED \<noteq> CODE_MISMATCH"
  by (simp_all add: NO_CODE_ISSUED_def CODE_EXPIRED_def CODE_MISMATCH_def VERIFIED_def)

lemma remainingTime_rounds_up:
  "60000 * (remainingTime d - 1) < cooldownPeriod - d \<and> cooldownPeriod - d \<le> 60000 * remainingTime d"
proof -
  define n where "n = cooldownPeriod - d"
  define c where "c = \<lceil>real_of_int n / 60000\<rceil>"
  have "real_of_int c - 1 < real_of_int n / 60000" "real_of_int n / 60000 \<le> real_of_int c"
    unfolding c_def by linarith+
  then have "real_of_int (60000 * (c - 1)) < real_of_int n"
    "real_of_int n \<le> real_of_int (60000 * c)"
    by (simp_all add: field_simps)
  then have "60000 * (c - 1) < n" "n \<le> 60000 * c"
    by (simp_all only: of_int_less_iff of_int_le_iff)
  then show ?thesis
    by (simp add: remainingTime_def c_def n_def)
qed

lemma toString_example: "toString \<lfloor>100000 + (1/2) * 900000 :: real\<rfloor> = ''550000''"
  by (simp add: toString_def digits_of.simps digit_char_def)

lemma generate_example:
  "generateVerificationCode (1/2) ttl now stamp u =
     (''550000'', u\<lparr> verificationCode := Some ''550000'',
             verificationCodeExpiry := Some (now + ttl),
             verificationAttempts := verificationAttempts u + 1,
             lastVerificationAttempt := Some stamp \<rparr>)"
  unfolding generateVerificationCode_def toString_example by (simp add: Let_def)

lemma after_rapid_requests:
  "run_ops rapid_requests example_user =
     example_user\<lparr> verificationCode := Some ''550000'',
             verificationCodeExpiry := Some 124000,
             verificationAttempts := 5,
             lastVerificationAttempt := Some 4000 \<rparr>"
  by (simp add: run_ops_def rapid_requests_def generate_example example_user_def new_User_def)

lemma possible_rapid_requests: "list_all possible_op rapid_requests"
  by (simp add: rapid_requests_def)

lemma reachable_run_ops:
  "reachable u \<Longrightarrow> list_all possible_op ops \<Longrightarrow> reachable (run_ops ops u)"
proof (induction ops arbitrary: u)
  case Nil
  then show ?case by (simp add: run_ops_def)
next
  case (Cons op ops)
  from Cons.prems have "reachable (run_op op u)"
    by (simp add: reachable.operation)
  with Cons.prems have "reachable (run_ops ops (run_op op u))"
    by (intro Cons.IH) simp_all
  then show ?case by (simp add: run_ops_def)
qed

lemma toString_examples: "toString 14 = ''14''" "toString 1 = ''1''"
  by (simp_all add: toString_def digits_of.simps digit_char_def)

lemma remainingTime_examples: "remainingTime 60001 = 14" "remainingTime 840000 = 1"
  by (simp_all add: remainingTime_def cooldownPeriod_def)

lemma code_sent_fields:
  "verificationCode code_sent = Some ''550000''"
  "verificationCodeExpiry code_sent = Some 120000"
  "verificationAttempts code_sent = 1"
  "lastVerificationAttempt code_sent = Some 0"
  "isPhoneVerified code_sent = False"
  by (simp_all add: code_sent_def generate_example example_user_def new_User_def)

lemma verifyCode_no_code:
  "\<not> truthy_string (verificationCode u) \<or> verificationCodeExpiry u = None \<Longrightarrow>
     verifyCode u c now = (NO_CODE_ISSUED, u)"
  by (auto simp: verifyCode_def NO_CODE_ISSUED_def)

lemma verifyCode_expired:
  "truthy_string (verificationCode u) \<Longrightarrow> verificationCodeExpiry u = Some e \<Longrightarrow> e < now \<Longrightarrow>
     verifyCode u c now = (CODE_EXPIRED, u)"
  by (simp add: verifyCode_def CODE_EXPIRED_def)

lemma verifyCode_mismatch:
  "truthy_string (verificationCode u) \<Longrightarrow> verificationCodeExpiry u = Some e \<Longrightarrow> \<not> e < now \<Longrightarrow>
     verificationCode u \<noteq> Some c \<Longrightarrow> verifyCode u c now = (CODE_MISMATCH, u)"
  by (simp add: verifyCode_def CODE_MISMATCH_def)

lemma verifyCode_match:
  "truthy_string (verificationCode u) \<Longrightarrow> verificationCodeExpiry u = Some e \<Longrightarrow> \<not> e < now \<Longrightarrow>
     verificationCode u = Some c \<Longrightarrow>
     verifyCode u c now =
       (VERIFIED, u\<lparr> isPhoneVerified := True, verificationCode := None,
                     verificationCodeExpiry := None, verificationAttempts := 0 \<rparr>)"
  by (simp add: verifyCode_def VERIFIED_def)

lemma code_confirmed_fields:
  "code_confirmed = example_user\<lparr> isPhoneVerified := True,
             verificationCode := None,
             verificationCodeExpiry := None,
             verificationAttempts := 0,
             lastVerificationAttempt := Some 0 \<rparr>"
  by (simp add: code_confirmed_def code_sent_def generate_example verifyCode_def
      example_user_def new_User_def)

lemma after_request_after_verification:
  "run_ops request_after_verification example_user =
     example_user\<lparr> isPhoneVerified := True,
             verificationCode := Some ''550000'',
             verificationCodeExpiry := Some 122000,
             verificationAttempts := 1,
             lastVerificationAttempt := Some 2000 \<rparr>"
  by (simp add: run_ops_def request_after_verification_def generate_example verifyCode_def
      example_user_def new_User_def)

section \<open>Each operation on its own\<close>

lemma cleanupExpiredCodes_per_account:
  "length (cleanupExpiredCodes now users) = length users
   \<and> (\<forall>i < length users. cleanupExpiredCodes now users ! i = cleanup_account now (users ! i))"
  by (simp add: cleanupExpiredCodes_def)

lemma reachable_unverified_generation_reachable:
  "reachable_unverified_generation u \<Longrightarrow> reachable u"
  by (induction rule: reachable_unverified_generation.induct)
     (simp_all add: reachable.created reachable.operation)

lemma run_op_keeps_verified: "isPhoneVerified u \<Longrightarrow> isPhoneVerified (run_op op u)"
proof (cases op)
  case (GenerateCode rnd ttl now stamp)
  assume "isPhoneVerified u"
  with GenerateCode show ?thesis
    by (simp add: generateVerificationCode_def Let_def)
next
  case (VerifyCode c now)
  assume "isPhoneVerified u"
  with VerifyCode show ?thesis
    by (simp add: verifyCode_def split: option.splits)
next
  case (CanRequestCode now)
  assume "isPhoneVerified u"
  with CanRequestCode show ?thesis
    by (auto simp: canRequestVerificationCode_def Let_def split: option.splits)
next
  case (Cleanup now)
  assume "isPhoneVerified u"
  with Cleanup show ?thesis
    by (simp add: cleanup_account_def split: option.splits)
qed

lemma canRequest_faults:
  "5 \<le> verificationAttempts u \<Longrightarrow> lastVerificationAttempt u = None \<Longrightarrow>
     canRequestVerificationCode u now = Inl TypeError"
  by (simp add: canRequestVerificationCode_def maxAttempts_def)

lemma run_op_keeps_stamp:
  assumes "1 \<le> verificationAttempts u \<longrightarrow> lastVerificationAttempt u \<noteq> None"
  shows "1 \<le> verificationAttempts (run_op op u) \<longrightarrow>
    lastVerificationAttempt (run_op op u) \<noteq> None"
proof (cases op)
  case (GenerateCode rnd ttl now stamp)
  then show ?thesis
    by (simp add: generateVerificationCode_def Let_def)
next
  case (VerifyCode c now)
  with assms show ?thesis
    by (simp add: verifyCode_def split: option.splits)
next
  case (CanRequestCode now)
  with assms show ?thesis
    by (auto simp: canRequestVerificationCode_def Let_def split: option.splits)
next
  case (Cleanup now)
  with assms show ?thesis
    by (simp add: cleanup_account_def split: option.splits)
qed

lemma reachable_stamp:
  "reachable u \<Longrightarrow> 1 \<le> verificationAttempts u \<longrightarrow> lastVerificationAttempt u \<noteq> None"
proof (induction rule: reachable.induct)
  case (created phone pw t)
  show ?case by (simp add: new_User_def)
next
  case (operation u op)
  then show ?case by (intro run_op_keeps_stamp)
qed

lemma run_op_keeps_cleared:
  assumes "isPhoneVerified u \<longrightarrow>
      verificationCode u = None \<and> verificationCodeExpiry u = None \<and> verificationAttempts u = 0"
    and "\<not> generates_for_verified op u"
  shows "isPhoneVerified (run_op op u) \<longrightarrow>
      verificationCode (run_op op u) = None \<and> verificationCodeExpiry (run_op op u) = None
      \<and> verificationAttempts (run_op op u) = 0"
proof (cases op)
  case (GenerateCode rnd ttl now stamp)
  with assms(2) show ?thesis
    by (simp add: generateVerificationCode_def Let_def)
next
  case (VerifyCode c now)
  with assms(1) show ?thesis
    by (auto simp: verifyCode_def split: option.splits)
next
  case (CanRequestCode now)
  with assms(1) show ?thesis
    by (auto simp: canRequestVerificationCode_def Let_def split: option.splits)
next
  case (Cleanup now)
  with assms(1) show ?thesis
    by (auto simp: cleanup_account_def split: option.splits)
qed

section \<open>Admission policy\<close>

text \<open>
  C1. \<open>canRequestVerificationCode\<close>: with fewer than 5 attempts the request is
  allowed and the document unchanged. With 5 or more attempts and a last attempt less
  than 15 minutes (900000 ms) ago it is denied, the document unchanged, and the returned
  text is \<open>Too many attempts. Please wait m minutes before requesting a new code.\<close>,
  where \<open>m\<close> stands for the decimal digits (without a leading zero) of the remaining
  minutes rounded up: the positive number \<open>m\<close> with
  \<open>60000 (m - 1) < remaining \<le> 60000 m\<close>. With 5 or more attempts and a last
  attempt at least 15 minutes ago the counter is reset to 0 and the request allowed.
\<close>

theorem canRequest_policy:
  "(verificationAttempts u < 5 \<longrightarrow>
      canRequestVerificationCode u now =
        Inr (\<lparr> canRequest = True, wait_message = None \<rparr>, u))
   \<and> (5 \<le> verificationAttempts u \<and> lastVerificationAttempt u = Some t
        \<and> now - t < 900000 \<longrightarrow>
      canRequestVerificationCode u now =
        Inr (\<lparr> canRequest = False,
               wait_message =
                 Some (''Too many attempts. Please wait ''
                       @ toString (remainingTime (now - t))
                       @ '' minutes before requesting a new code.'') \<rparr>, u)
      \<and> (\<forall>ch \<in> set (toString (remainingTime (now - t))). is_digit ch)
      \<and> hd (toString (remainingTime (now - t))) \<noteq> CHR ''0''
      \<and> int (decimal_value (toString (remainingTime (now - t)))) = remainingTime (now - t)
      \<and> 0 < remainingTime (now - t)
      \<and> 60000 * (remainingTime (now - t) - 1) < 900000 - (now - t)
      \<and> 900000 - (now - t) \<le> 60000 * remainingTime (now - t))
   \<and> (5 \<le> verificationAttempts u \<and> lastVerificationAttempt u = Some t
        \<and> 900000 \<le> now - t \<longrightarrow>
      canRequestVerificationCode u now =
        Inr (\<lparr> canRequest = True, wait_message = None \<rparr>,
             u\<lparr> verificationAttempts := 0 \<rparr>))"
proof -
  have below: "canRequestVerificationCode u now =
        Inr (\<lparr> canRequest = True, wait_message = None \<rparr>, u)"
    if "verificationAttempts u < 5"
    using that by (simp add: canRequestVerificationCode_def maxAttempts_def)
  have deny: "canRequestVerificationCode u now =
        Inr (\<lparr> canRequest = False,
               wait_message =
                 Some (''Too many attempts. Please wait ''
                       @ toString (remainingTime (now - t))
                       @ '' minutes before requesting a new code.'') \<rparr>, u)
      \<and> (\<forall>ch \<in> set (toString (remainingTime (now - t))). is_digit ch)
      \<and> hd (toString (remainingTime (now - t))) \<noteq> CHR ''0''
      \<and> int (decimal_value (toString (remainingTime (now - t)))) = remainingTime (now - t)
      \<and> 0 < remainingTime (now - t)
      \<and> 60000 * (remainingTime (now - t) - 1) < 900000 - (now - t)
      \<and> 900000 - (now - t) \<le> 60000 * remainingTime (now - t)"
    if a: "5 \<le> verificationAttempts u \<and> lastVerificationAttempt u = Some t
        \<and> now - t < 900000"
  proof -
    define m where "m = remainingTime (now - t)"
    from a have res: "canRequestVerificationCode u now =
           Inr (\<lparr> canRequest = False,
                  wait_message =
                    Some (''Too many attempts. Please wait '' @ toString m
                          @ '' minutes before requesting a new code.'') \<rparr>, u)"
      unfolding m_def
      by (simp add: canRequestVerificationCode_def maxAttempts_def cooldownPeriod_def
          too_many_attempts_def)
    have r: "60000 * (m - 1) < 900000 - (now - t)" "900000 - (now - t) \<le> 60000 * m"
      unfolding m_def
      using remainingTime_rounds_up [of "now - t"] by (simp_all add: cooldownPeriod_def)
    with a have pos: "0 < m" by linarith
    then have rendering: "toString m = digits_of (nat m)"
      by (simp add: toString_def)
    have "\<forall>ch \<in> set (toString m). is_digit ch"
      unfolding rendering by (rule digits_of_all_digits)
    moreover from pos have "hd (toString m) \<noteq> CHR ''0''"
      unfolding rendering by (intro hd_digits_of) simp
    moreover from pos have "int (decimal_value (toString m)) = m"
      unfolding rendering by (simp add: decimal_value_digits_of)
    ultimately show ?thesis
      using res r pos unfolding m_def by simp
  qed
  have reset: "canRequestVerificationCode u now =
        Inr (\<lparr> canRequest = True, wait_message = None \<rparr>,
             u\<lparr> verificationAttempts := 0 \<rparr>)"
    if "5 \<le> verificationAttempts u \<and> lastVerificationAttempt u = Some t
        \<and> 900000 \<le> now - t"
    using that by (simp add: canRequestVerificationCode_def maxAttempts_def cooldownPeriod_def)
  from below deny reset show ?thesis by blast
qed

theorem canRequest_policy_witness:
  "canRequestVerificationCode example_user 0 =
     Inr (\<lparr> canRequest = True, wait_message = None \<rparr>, example_user)
   \<and> canRequestVerificationCode (run_ops rapid_requests example_user) 64001 =
       Inr (\<lparr> canRequest = False,
              wait_message = Some ''Too many attempts. Please wait 14 minutes before requesting a new code.'' \<rparr>,
            run_ops rapid_requests example_user)
   \<and> canRequestVerificationCode (run_ops rapid_requests example_user) 844000 =
       Inr (\<lparr> canRequest = False,
              wait_message = Some ''Too many attempts. Please wait 1 minutes before requesting a new code.'' \<rparr>,
            run_ops rapid_requests example_user)
   \<and> canRequestVerificationCode (run_ops rapid_requests example_user) 904000 =
       Inr (\<lparr> canRequest = True, wait_message = None \<rparr>,
            (run_ops rapid_requests example_user)\<lparr> verificationAttempts := 0 \<rparr>)"
proof -
  have fresh: "verificationAttempts example_user < 5"
    by (simp add: example_user_def new_User_def)
  have capped: "5 \<le> verificationAttempts (run_ops rapid_requests example_user)"
    "lastVerificationAttempt (run_ops rapid_requests example_user) = Some 4000"
    by (simp_all add: after_rapid_requests)
  have early: "(64001::int) - 4000 < 900000" "(844000::int) - 4000 < 900000"
    and late: "(900000::int) \<le> 904000 - 4000"
    by simp_all
  show ?thesis
    using canRequest_policy [of example_user 0 0] fresh
      canRequest_policy [of "run_ops rapid_requests example_user" 64001 4000]
      canRequest_policy [of "run_ops rapid_requests example_user" 844000 4000] capped early
      canRequest_policy [of "run_ops rapid_requests example_user" 904000 4000] late
    by (simp add: remainingTime_examples toString_examples)
qed

section \<open>Expiry boundary\<close>

text \<open>
  C2, as stated: with a code outstanding, \<open>verifyCode\<close> fails with \<open>CODE_EXPIRED\<close>
  whenever the current time is greater than or equal to the stored expiry. The method
  compares \<open>verificationCodeExpiry < new Date()\<close>, so at the exact instant of expiry
  the code is still live: the example account's code expires at 120000, and
  confirming it at 120000 does not report \<open>CODE_EXPIRED\<close>.
\<close>

theorem verifyCode_at_expiry_counterexample:
  "truthy_string (verificationCode code_sent)
   \<and> verificationCodeExpiry code_sent = Some 120000
   \<and> (120000::int) \<ge> 120000
   \<and> fst (verifyCode code_sent ''550000'' 120000) \<noteq> CODE_EXPIRED"
  by (simp add: code_sent_fields verifyCode_match [where e = 120000] verify_results_distinct)

text \<open>
  C2, amended: with a code outstanding, \<open>verifyCode\<close> fails with \<open>CODE_EXPIRED\<close>
  exactly when the current time is strictly greater than the stored expiry, for every
  candidate; at the exact instant of expiry the code is not yet expired.
\<close>

theorem verifyCode_expired_iff:
  assumes "truthy_string (verificationCode u)" and "verificationCodeExpiry u = Some e"
  shows "fst (verifyCode u c now) = CODE_EXPIRED \<longleftrightarrow> e < now"
proof (cases "e < now")
  case True
  with assms show ?thesis by (simp add: verifyCode_expired)
next
  case False
  with assms show ?thesis
    by (cases "verificationCode u = Some c")
       (simp_all add: verifyCode_match verifyCode_mismatch verify_results_distinct)
qed

theorem verifyCode_expired_iff_witness:
  "fst (verifyCode code_sent ''550000'' 120001) = CODE_EXPIRED
   \<and> fst (verifyCode code_sent ''550000'' 120000) \<noteq> CODE_EXPIRED"
proof -
  have h: "truthy_string (verificationCode code_sent)"
    "verificationCodeExpiry code_sent = Some 120000"
    by (simp_all add: code_sent_fields)
  show ?thesis
    using verifyCode_expired_iff [OF h, of "''550000''" 120001]
      verifyCode_expired_iff [OF h, of "''550000''" 120000]
    by simp
qed

section \<open>Verified accounts and outstanding codes\<close>

text \<open>
  C3, as stated: in every reachable state, \<open>isPhoneVerified\<close> implies that code and
  expiry are absent and the counter is 0. A code request after a successful
  confirmation reaches a state where the account is verified, holds a code and an
  expiry, and has counted one attempt.
\<close>

theorem verified_with_code_counterexample:
  "reachable (run_ops request_after_verification example_user)
   \<and> isPhoneVerified (run_ops request_after_verification example_user)
   \<and> verificationCode (run_ops request_after_verification example_user) = Some ''550000''
   \<and> verificationCodeExpiry (run_ops request_after_verification example_user) = Some 122000
   \<and> verificationAttempts (run_ops request_after_verification example_user) = 1"
proof -
  have "reachable example_user"
    unfolding example_user_def by (rule reachable.created)
  moreover have "list_all possible_op request_after_verification"
    by (simp add: request_after_verification_def)
  ultimately have "reachable (run_ops request_after_verification example_user)"
    by (rule reachable_run_ops)
  then show ?thesis
    by (simp add: after_request_after_verification)
qed

text \<open>
  C3, amended: in every state reachable from a newly created account by operations of
  which no \<open>generateVerificationCode\<close> is applied to an account that is already
  verified, \<open>isPhoneVerified\<close> implies that \<open>verificationCode\<close> and
  \<open>verificationCodeExpiry\<close> are absent and \<open>verificationAttempts\<close> is 0.
\<close>

theorem verified_implies_cleared:
  assumes "reachable_unverified_generation u" and "isPhoneVerified u"
  shows "verificationCode u = None \<and> verificationCodeExpiry u = None
    \<and> verificationAttempts u = 0"
proof -
  from assms(1) have "isPhoneVerified u \<longrightarrow>
      verificationCode u = None \<and> verificationCodeExpiry u = None \<and> verificationAttempts u = 0"
  proof (induction rule: reachable_unverified_generation.induct)
    case (created phone pw t)
    show ?case by (simp add: new_User_def)
  next
    case (operation u op)
    then show ?case by (intro run_op_keeps_cleared)
  qed
  with assms(2) show ?thesis by simp
qed

theorem verified_implies_cleared_witness:
  "reachable_unverified_generation code_confirmed \<and> isPhoneVerified code_confirmed
   \<and> verificationCode code_confirmed = None \<and> verificationCodeExpiry code_confirmed = None
   \<and> verificationAttempts code_confirmed = 0"
proof -
  have "reachable_unverified_generation example_user"
    unfolding example_user_def by (rule reachable_unverified_generation.created)
  then have "reachable_unverified_generation
      (run_op (GenerateCode (1/2) 120000 0 0) example_user)"
    by (rule reachable_unverified_generation.operation)
       (simp_all add: example_user_def new_User_def)
  then have "reachable_unverified_generation
      (run_op (VerifyCode ''550000'' 1000) (run_op (GenerateCode (1/2) 120000 0 0) example_user))"
    by (rule reachable_unverified_generation.operation) simp_all
  then have reach: "reachable_unverified_generation code_confirmed"
    by (simp add: code_confirmed_def code_sent_def)
  have verified: "isPhoneVerified code_confirmed"
    by (simp add: code_confirmed_fields)
  from verified_implies_cleared [OF reach verified] reach verified show ?thesis
    by simp
qed

section \<open>Confirmation\<close>

text \<open>
  C4. With a code outstanding and not expired (the current time is not after the
  expiry), \<open>verifyCode\<close> with a candidate equal to the stored code returns success,
  sets \<open>isPhoneVerified\<close>, clears \<open>verificationCode\<close> and
  \<open>verificationCodeExpiry\<close>, and resets \<open>verificationAttempts\<close> to 0; the other
  fields keep their values.
\<close>

theorem verifyCode_success:
  assumes "verificationCode u = Some c" and "c \<noteq> []"
    and "verificationCodeExpiry u = Some e" and "now \<le> e"
    and "verifyCode u c now = (r, u')"
  shows "r = VERIFIED \<and> success r
    \<and> isPhoneVerified u'
    \<and> verificationCode u' = None
    \<and> verificationCodeExpiry u' = None
    \<and> verificationAttempts u' = 0
    \<and> lastVerificationAttempt u' = lastVerificationAttempt u
    \<and> phoneNumber u' = phoneNumber u \<and> password u' = password u
    \<and> isActive u' = isActive u \<and> createdAt u' = createdAt u
    \<and> lastLoginAt u' = lastLoginAt u"
proof -
  from assms(1-4) have "verifyCode u c now =
     (VERIFIED, u\<lparr> isPhoneVerified := True, verificationCode := None,
                     verificationCodeExpiry := None, verificationAttempts := 0 \<rparr>)"
    by (intro verifyCode_match) auto
  with assms(5) have "r = VERIFIED"
    "u' = u\<lparr> isPhoneVerified := True, verificationCode := None,
                     verificationCodeExpiry := None, verificationAttempts := 0 \<rparr>"
    by simp_all
  then show ?thesis by (simp add: VERIFIED_def)
qed

theorem verifyCode_success_witness:
  "fst (verifyCode code_sent ''550000'' 1000) = VERIFIED
   \<and> isPhoneVerified code_confirmed
   \<and> verificationCode code_confirmed = None
   \<and> verificationCodeExpiry code_confirmed = None
   \<and> verificationAttempts code_confirmed = 0"
proof -
  have h: "verificationCode code_sent = Some ''550000''" "''550000'' \<noteq> []"
    "verificationCodeExpiry code_sent = Some 120000" "(1000::int) \<le> 120000"
    by (simp_all add: code_sent_fields)
  have run: "verifyCode code_sent ''550000'' 1000 =
    (fst (verifyCode code_sent ''550000'' 1000), code_confirmed)"
    by (simp add: code_confirmed_def)
  show ?thesis
    using verifyCode_success [OF h run] by simp
qed

text \<open>
  C5. \<open>verifyCode\<close> fails with \<open>NO_CODE_ISSUED\<close> when no code or no expiry is
  stored. With a code stored and the current time after its expiry it fails with
  \<open>CODE_EXPIRED\<close>, not with \<open>CODE_MISMATCH\<close>, whatever the candidate. Only for an
  unexpired code does the candidate matter: the failure is \<open>CODE_MISMATCH\<close> exactly
  when the candidate is not the very string that is stored.
\<close>

theorem verifyCode_failure_precedence:
  "(\<not> truthy_string (verificationCode u) \<or> verificationCodeExpiry u = None \<longrightarrow>
      fst (verifyCode u c now) = NO_CODE_ISSUED)
   \<and> (truthy_string (verificationCode u) \<and> verificationCodeExpiry u = Some e \<and> e < now \<longrightarrow>
      fst (verifyCode u c now) = CODE_EXPIRED \<and> fst (verifyCode u c now) \<noteq> CODE_MISMATCH)
   \<and> (truthy_string (verificationCode u) \<and> verificationCodeExpiry u = Some e \<and> \<not> e < now \<longrightarrow>
      (fst (verifyCode u c now) = CODE_MISMATCH \<longleftrightarrow> verificationCode u \<noteq> Some c))"
proof -
  have none: "fst (verifyCode u c now) = NO_CODE_ISSUED"
    if "\<not> truthy_string (verificationCode u) \<or> verificationCodeExpiry u = None"
    using that by (simp add: verifyCode_no_code)
  have late: "fst (verifyCode u c now) = CODE_EXPIRED \<and> fst (verifyCode u c now) \<noteq> CODE_MISMATCH"
    if "truthy_string (verificationCode u) \<and> verificationCodeExpiry u = Some e \<and> e < now"
    using that by (simp add: verifyCode_expired verify_results_distinct)
  have live: "fst (verifyCode u c now) = CODE_MISMATCH \<longleftrightarrow> verificationCode u \<noteq> Some c"
    if "truthy_string (verificationCode u) \<and> verificationCodeExpiry u = Some e \<and> \<not> e < now"
    using that by (cases "verificationCode u = Some c")
      (simp_all add: verifyCode_match verifyCode_mismatch verify_results_distinct)
  from none late live show ?thesis by blast
qed

theorem verifyCode_failure_precedence_witness:
  "fst (verifyCode example_user ''550000'' 0) = NO_CODE_ISSUED
   \<and> fst (verifyCode code_sent ''550000'' 180000) = CODE_EXPIRED
   \<and> fst (verifyCode code_sent ''000000'' 180000) = CODE_EXPIRED
   \<and> fst (verifyCode code_sent ''000000'' 1000) = CODE_MISMATCH
   \<and> fst (verifyCode code_sent ''550000 '' 1000) = CODE_MISMATCH
   \<and> fst (verifyCode code_sent ''550000'' 1000) \<noteq> CODE_MISMATCH"
proof -
  have absent: "\<not> truthy_string (verificationCode example_user)"
    by (simp add: example_user_def new_User_def)
  have stored: "truthy_string (verificationCode code_sent)"
    "verificationCodeExpiry code_sent = Some 120000"
    by (simp_all add: code_sent_fields)
  have times: "(120000::int) < 180000" "\<not> (120000::int) < 1000"
    by simp_all
  show ?thesis
    using verifyCode_failure_precedence [of example_user "''550000''" 0] absent
      verifyCode_failure_precedence [of code_sent "''550000''" 180000 120000]
      verifyCode_failure_precedence [of code_sent "''000000''" 180000 120000]
      verifyCode_failure_precedence [of code_sent "''000000''" 1000 120000]
      verifyCode_failure_precedence [of code_sent "''550000 ''" 1000 120000]
      verifyCode_failure_precedence [of code_sent "''550000''" 1000 120000]
      stored times
    by (simp add: code_sent_fields)
qed

section \<open>Generation\<close>

text \<open>
  C6. For every account and a draw \<open>0 \<le> rnd < 1\<close>, \<open>generateVerificationCode\<close>
  returns a string of 6 decimal digits without a leading zero, denoting a number from
  100000 to 999999; it stores that string as \<open>verificationCode\<close>, sets
  \<open>verificationCodeExpiry\<close> to the clock reading plus the configured lifetime,
  adds exactly 1 to \<open>verificationAttempts\<close> and sets \<open>lastVerificationAttempt\<close> to
  the clock reading of the stamp. It consults no admission check, and the other
  fields keep their values.
\<close>

theorem generateVerificationCode_postcondition:
  assumes "0 \<le> rnd" and "rnd < 1"
    and "generateVerificationCode rnd ttl now stamp u = (code, u')"
  shows "length code = 6 \<and> (\<forall>ch \<in> set code. is_digit ch) \<and> hd code \<noteq> CHR ''0''
    \<and> 100000 \<le> decimal_value code \<and> decimal_value code \<le> 999999
    \<and> verificationCode u' = Some code
    \<and> verificationCodeExpiry u' = Some (now + ttl)
    \<and> verificationAttempts u' = verificationAttempts u + 1
    \<and> lastVerificationAttempt u' = Some stamp
    \<and> isPhoneVerified u' = isPhoneVerified u
    \<and> phoneNumber u' = phoneNumber u \<and> password u' = password u
    \<and> isActive u' = isActive u \<and> createdAt u' = createdAt u
    \<and> lastLoginAt u' = lastLoginAt u"
proof -
  define k where "k = \<lfloor>100000 + rnd * 900000\<rfloor>"
  define n where "n = nat k"
  from assms(1,2) have range: "100000 \<le> k" "k \<le> 999999"
    unfolding k_def by (rule code_number_range [THEN conjunct1], rule code_number_range [THEN conjunct2])
  then have n: "10 ^ 5 \<le> n" "n < 10 ^ Suc 5" "0 < n" "100000 \<le> n" "n \<le> 999999"
    unfolding n_def by simp_all
  from assms(3) have "code = toString k"
    unfolding k_def by (auto simp: generateVerificationCode_def Let_def)
  with range have code: "code = digits_of n"
    by (simp add: toString_def n_def)
  have "length code = 6"
    unfolding code using length_digits_of [OF n(1,2)] by simp
  moreover have "\<forall>ch \<in> set code. is_digit ch"
    unfolding code by (rule digits_of_all_digits)
  moreover have "hd code \<noteq> CHR ''0''"
    unfolding code using n(3) by (rule hd_digits_of)
  moreover have "decimal_value code = n"
    unfolding code by (rule decimal_value_digits_of)
  moreover have "u' = u\<lparr> verificationCode := Some code,
             verificationCodeExpiry := Some (now + ttl),
             verificationAttempts := verificationAttempts u + 1,
             lastVerificationAttempt := Some stamp \<rparr>"
    using assms(3) by (auto simp: generateVerificationCode_def Let_def)
  ultimately show ?thesis using n(4,5) by simp
qed

theorem generateVerificationCode_postcondition_witness:
  "generateVerificationCode (1/2) 120000 0 0 example_user = (''550000'', code_sent)
   \<and> length ''550000'' = 6
   \<and> decimal_value ''550000'' \<le> 999999
   \<and> verificationCode code_sent = Some ''550000''
   \<and> verificationCodeExpiry code_sent = Some 120000
   \<and> verificationAttempts code_sent = verificationAttempts example_user + 1
   \<and> lastVerificationAttempt code_sent = Some 0"
proof -
  have draw: "(0::real) \<le> 1/2" "(1/2::real) < 1" by simp_all
  have run: "generateVerificationCode (1/2) 120000 0 0 example_user = (''550000'', code_sent)"
    by (simp add: code_sent_def generate_example)
  from generateVerificationCode_postcondition [OF draw run] run show ?thesis
    by simp
qed

text \<open>
  C7. After \<open>generateVerificationCode\<close> with a positive lifetime has returned the code
  \<open>c\<close>, a \<open>verifyCode\<close> with \<open>c\<close> that follows immediately (at a clock reading
  \<open>t\<close> not after the expiry, such as the instant of generation itself) succeeds, and
  a second \<open>verifyCode\<close> with \<open>c\<close> afterwards, at any time, fails with
  \<open>NO_CODE_ISSUED\<close>.
\<close>

theorem generate_then_verify_once:
  assumes "0 < ttl" and "t \<le> now + ttl"
    and "generateVerificationCode rnd ttl now stamp u = (c, u1)"
    and "verifyCode u1 c t = (r1, u2)"
    and "verifyCode u2 c t' = (r2, u3)"
  shows "r1 = VERIFIED \<and> success r1 \<and> r2 = NO_CODE_ISSUED \<and> \<not> success r2"
proof -
  from assms(3) have u1: "verificationCode u1 = Some c" "c \<noteq> []"
    "verificationCodeExpiry u1 = Some (now + ttl)"
    by (auto simp: generateVerificationCode_def Let_def toString_nonempty)
  with assms(2) have "verifyCode u1 c t =
       (VERIFIED, u1\<lparr> isPhoneVerified := True, verificationCode := None,
                     verificationCodeExpiry := None, verificationAttempts := 0 \<rparr>)"
    by (intro verifyCode_match) auto
  with assms(4) have first: "r1 = VERIFIED" and u2: "verificationCode u2 = None"
    by auto
  from u2 have "verifyCode u2 c t' = (NO_CODE_ISSUED, u2)"
    by (simp add: verifyCode_no_code)
  with assms(5) have "r2 = NO_CODE_ISSUED" by simp
  with first show ?thesis by (simp add: VERIFIED_def NO_CODE_ISSUED_def)
qed

theorem generate_then_verify_once_witness:
  "fst (verifyCode code_sent ''550000'' 0) = VERIFIED
   \<and> fst (verifyCode (snd (verifyCode code_sent ''550000'' 0)) ''550000'' 0) = NO_CODE_ISSUED"
proof -
  have ttl: "(0::int) < 120000" "(0::int) \<le> 0 + 120000" by simp_all
  have run: "generateVerificationCode (1/2) 120000 0 0 example_user = (''550000'', code_sent)"
    by (simp add: code_sent_def generate_example)
  have first: "verifyCode code_sent ''550000'' 0 =
      (fst (verifyCode code_sent ''550000'' 0), snd (verifyCode code_sent ''550000'' 0))"
    by simp
  have second: "verifyCode (snd (verifyCode code_sent ''550000'' 0)) ''550000'' 0 =
      (fst (verifyCode (snd (verifyCode code_sent ''550000'' 0)) ''550000'' 0),
       snd (verifyCode (snd (verifyCode code_sent ''550000'' 0)) ''550000'' 0))"
    by simp
  from generate_then_verify_once [OF ttl run first second] show ?thesis
    by simp
qed

section \<open>Frame properties\<close>

text \<open>
  C8. No sequence of operations (code generation, confirmation, admission check,
  cleanup; with any arguments and from any state) turns \<open>isPhoneVerified\<close> from
  true to false.
\<close>

theorem isPhoneVerified_sticky:
  "isPhoneVerified u \<Longrightarrow> isPhoneVerified (run_ops ops u)"
proof (induction ops arbitrary: u)
  case Nil
  then show ?case by (simp add: run_ops_def)
next
  case (Cons op ops)
  from Cons.prems have "isPhoneVerified (run_op op u)"
    by (rule run_op_keeps_verified)
  then have "isPhoneVerified (run_ops ops (run_op op u))"
    by (rule Cons.IH)
  then show ?case by (simp add: run_ops_def)
qed

theorem isPhoneVerified_sticky_witness:
  "isPhoneVerified code_confirmed \<and> isPhoneVerified (run_ops mixed_operations code_confirmed)"
proof -
  have "verifyCode code_sent ''550000'' 1000 =
       (VERIFIED, code_sent\<lparr> isPhoneVerified := True, verificationCode := None,
                     verificationCodeExpiry := None, verificationAttempts := 0 \<rparr>)"
    by (rule verifyCode_match [where e = 120000]) (simp_all add: code_sent_fields)
  then have verified: "isPhoneVerified code_confirmed"
    by (simp add: code_confirmed_def)
  from isPhoneVerified_sticky [OF this, of mixed_operations] verified show ?thesis
    by simp
qed

text \<open>
  C9. When \<open>verifyCode\<close> returns a failure, which is one of \<open>NO_CODE_ISSUED\<close>,
  \<open>CODE_EXPIRED\<close> and \<open>CODE_MISMATCH\<close>, the account is unchanged in every field:
  the counter is not incremented and an expired code is not cleared.
\<close>

theorem verifyCode_failure_unchanged:
  assumes "\<not> success (fst (verifyCode u c now))"
  shows "snd (verifyCode u c now) = u
    \<and> fst (verifyCode u c now) \<in> {NO_CODE_ISSUED, CODE_EXPIRED, CODE_MISMATCH}"
  using assms
  by (auto simp: verifyCode_def NO_CODE_ISSUED_def CODE_EXPIRED_def CODE_MISMATCH_def
      split: if_splits option.splits)

theorem verifyCode_failure_unchanged_witness:
  "fst (verifyCode code_sent ''550000'' 180000) = CODE_EXPIRED
   \<and> snd (verifyCode code_sent ''550000'' 180000) = code_sent
   \<and> verificationCode (snd (verifyCode code_sent ''550000'' 180000)) = Some ''550000''
   \<and> verificationAttempts (snd (verifyCode code_sent ''550000'' 180000)) = 1"
proof -
  have expired: "fst (verifyCode code_sent ''550000'' 180000) = CODE_EXPIRED"
    by (simp add: verifyCode_expired [where e = 120000] code_sent_fields)
  then have "\<not> success (fst (verifyCode code_sent ''550000'' 180000))"
    by (simp add: CODE_EXPIRED_def)
  from verifyCode_failure_unchanged [OF this] expired show ?thesis
    by (simp add: code_sent_fields)
qed

section \<open>The admission check never throws on reachable states\<close>

text \<open>
  C10. In every reachable state, \<open>verificationAttempts \<ge> 1\<close> implies that
  \<open>lastVerificationAttempt\<close> is present, and \<open>canRequestVerificationCode\<close> returns
  a result at every clock reading instead of throwing.
\<close>

theorem canRequest_total_on_reachable:
  assumes "reachable u"
  shows "(1 \<le> verificationAttempts u \<longrightarrow> lastVerificationAttempt u \<noteq> None)
    \<and> (\<exists>r u'. canRequestVerificationCode u now = Inr (r, u'))"
proof -
  from assms have inv: "1 \<le> verificationAttempts u \<longrightarrow> lastVerificationAttempt u \<noteq> None"
    by (rule reachable_stamp)
  have "\<exists>r u'. canRequestVerificationCode u now = Inr (r, u')"
  proof (cases "5 \<le> verificationAttempts u")
    case True
    with inv obtain t where "lastVerificationAttempt u = Some t" by auto
    with True show ?thesis
      by (simp add: canRequestVerificationCode_def maxAttempts_def Let_def)
  next
    case False
    then show ?thesis
      by (simp add: canRequestVerificationCode_def maxAttempts_def)
  qed
  with inv show ?thesis by simp
qed

theorem canRequest_total_on_reachable_witness:
  "reachable (run_ops rapid_requests example_user)
   \<and> verificationAttempts (run_ops rapid_requests example_user) = 5
   \<and> lastVerificationAttempt (run_ops rapid_requests example_user) \<noteq> None
   \<and> (\<exists>r u'. canRequestVerificationCode (run_ops rapid_requests example_user) 64001 = Inr (r, u'))"
proof -
  have "reachable example_user"
    unfolding example_user_def by (rule reachable.created)
  then have reach: "reachable (run_ops rapid_requests example_user)"
    using possible_rapid_requests by (rule reachable_run_ops)
  have "verificationAttempts (run_ops rapid_requests example_user) = 5"
    by (simp add: after_rapid_requests)
  with reach canRequest_total_on_reachable [OF reach, of 64001] show ?thesis
    by simp
qed

end
